theory Spec2Isabelle
  imports Main "HOL-Library.Sublist"
begin

section \<open>Shared vocabulary\<close>

text \<open>
  A \<^verbatim>\<open>Date\<close> is its number of milliseconds. Every handler answers with a status and
  a JSON body; the bodies the handlers build are the constructors of \<open>payload\<close>. A
  request field that is absent from the body is read as the empty string: in every
  test the handlers make (\<^verbatim>\<open>!x\<close>, \<^verbatim>\<open>required: true\<close>) the two behave alike.
\<close>

type_synonym time = nat

text \<open>One history entry of \<^verbatim>\<open>chatSchema\<close>.\<close>

record turn =
  role :: string
  content :: string
  img :: "string option"

text \<open>A document of the \<^verbatim>\<open>Chat\<close> collection (\<^verbatim>\<open>chatSchema\<close>); its \<^verbatim>\<open>_id\<close> is
  the key under which the collection holds it.\<close>

record chat =
  chatUserId :: string
  history :: "turn list"
  chatCreatedAt :: time
  chatUpdatedAt :: time

text \<open>One element of the \<^verbatim>\<open>pinnedChats\<close> array of \<^verbatim>\<open>pinnedChatsSchema\<close>
  (\<^verbatim>\<open>_id\<close>, \<^verbatim>\<open>title\<close>, \<^verbatim>\<open>createdAt\<close>).\<close>

record summary =
  sid :: string
  title :: string
  createdAt :: time

text \<open>A document of the \<^verbatim>\<open>PinnedChats\<close> collection. The schema option
  \<^verbatim>\<open>{ timestamps: true }\<close> gives it \<^verbatim>\<open>createdAt\<close> and \<^verbatim>\<open>updatedAt\<close>, and every
  save and update of the document stamps \<^verbatim>\<open>updatedAt\<close> with the clock.\<close>

record pinnedChatsDoc =
  pinnedChats :: "summary list"
  pcCreatedAt :: time
  pcUpdatedAt :: time

text \<open>Modelled from the spec: \<^verbatim>\<open>models/userChats.js\<close> (the schema of the
  \<^verbatim>\<open>UserChats\<close> collection) is not among the sources. The spec gives the two listing
  projections one shape (\<open>{userId, summaries}\<close> with summaries \<open>{id, title, createdAt}\<close>),
  so the schema is taken to be \<^verbatim>\<open>pinnedChatsSchema\<close> with the array named \<^verbatim>\<open>chats\<close>,
  as the handlers address it: string ids, \<^verbatim>\<open>createdAt\<close> defaulting to the clock, and
  the document stamped by \<^verbatim>\<open>{ timestamps: true }\<close>.\<close>

record userChatsDoc =
  chats :: "summary list"
  ucCreatedAt :: time
  ucUpdatedAt :: time

text \<open>The three collections. The listing collections hold one document for each user
  (the handlers create one only where none is found), so they are maps from
  \<^verbatim>\<open>userId\<close>.\<close>

record db =
  Chat :: "string \<rightharpoonup> chat"
  UserChats :: "string \<rightharpoonup> userChatsDoc"
  PinnedChats :: "string \<rightharpoonup> pinnedChatsDoc"

datatype payload =
    Message string
  | ChatId string
  | ChatDoc "chat option"
  | Summaries "summary list"
  | ResponseText string
  | ErrorText string

datatype reply = Reply nat payload

fun status :: "reply \<Rightarrow> nat" where
  "status (Reply n b) = n"

fun body :: "reply \<Rightarrow> payload" where
  "body (Reply n b) = b"

text \<open>
  What the surroundings contribute while one request is served: the \<^verbatim>\<open>ObjectId\<close> the
  driver generates for a new \<^verbatim>\<open>Chat\<close> document, the reading of the clock, and which
  awaited store call (counted from 0 in program order) rejects, if any. A rejected call
  throws into the handler's \<^verbatim>\<open>catch\<close>, which answers 500; the writes made before it
  stay.
\<close>

record env =
  newId :: string
  now :: time
  failAt :: "nat option"

definition demouser :: string where
  "demouser = ''demouser''"

section \<open>Array operators of the store\<close>

text \<open>\<^verbatim>\<open>$pull: { arr: { _id: c } }\<close> removes every element whose id is \<open>c\<close>.\<close>

definition pull :: "string \<Rightarrow> summary list \<Rightarrow> summary list" where
  "pull c xs = filter (\<lambda>x. sid x \<noteq> c) xs"

text \<open>\<^verbatim>\<open>$set: { "arr.$.title": t }\<close> under the filter \<^verbatim>\<open>"arr._id": c\<close>: the positional
  operator addresses the first element that matches.\<close>

fun setTitle :: "string \<Rightarrow> string \<Rightarrow> summary list \<Rightarrow> summary list" where
  "setTitle c t [] = []"
| "setTitle c t (x # xs) = (if sid x = c then x\<lparr>title := t\<rparr> # xs else x # setTitle c t xs)"

text \<open>\<^verbatim>\<open>arr.some((chat) => chat._id === c)\<close>.\<close>

definition some_id :: "string \<Rightarrow> summary list \<Rightarrow> bool" where
  "some_id c xs = list_ex (\<lambda>x. sid x = c) xs"

text \<open>What \<^verbatim>\<open>updateOne\<close> reports: \<^verbatim>\<open>matchedCount\<close> counts the document the
  filter selected, \<^verbatim>\<open>modifiedCount\<close> counts it only when the update changed it. An
  update of a listing document sets \<^verbatim>\<open>updatedAt\<close> along with what it was asked to set,
  so it changes the document unless the clock reads what was stored.\<close>

record updateResult =
  matchedCount :: nat
  modifiedCount :: nat

section \<open>Chat routes\<close>

text \<open>\<^verbatim>\<open>POST /api/chats\<close>. Awaited calls: 0 \<^verbatim>\<open>newChat.save()\<close>, 1 \<^verbatim>\<open>UserChats.find\<close>,
  2 \<^verbatim>\<open>newUserChats.save()\<close> or \<^verbatim>\<open>UserChats.updateOne\<close>. The save of the chat rejects
  when a \<^verbatim>\<open>content\<close> is empty (\<^verbatim>\<open>required: true\<close>) or the id is already taken. The
  \<^verbatim>\<open>error\<close> field of the 500 body (the exception's text) is left out.\<close>

definition post_api_chats :: "env \<Rightarrow> string \<Rightarrow> string \<Rightarrow> db \<Rightarrow> reply \<times> db" where
  "post_api_chats e text assistantResponse d =
    (let userId = demouser;
         failed = Reply 500 (Message ''Error creating chat!'');
         entry = \<lparr>sid = newId e, title = take 30 text, createdAt = now e\<rparr>
     in if failAt e = Some 0 \<or> text = [] \<or> assistantResponse = [] \<or> Chat d (newId e) \<noteq> None
        then (failed, d)
        else
          let savedChat = \<lparr>chatUserId = userId,
                 history = [\<lparr>role = ''user'', content = text, img = None\<rparr>,
                            \<lparr>role = ''assistant'', content = assistantResponse, img = None\<rparr>],
                 chatCreatedAt = now e, chatUpdatedAt = now e\<rparr>;
              d1 = d\<lparr>Chat := (Chat d)(newId e \<mapsto> savedChat)\<rparr>
          in if failAt e = Some 1 \<or> failAt e = Some 2 then (failed, d1)
             else (Reply 201 (ChatId (newId e)),
                   (case UserChats d1 userId of
                      None \<Rightarrow> d1\<lparr>UserChats := (UserChats d1)(userId \<mapsto>
                                 \<lparr>chats = [entry], ucCreatedAt = now e, ucUpdatedAt = now e\<rparr>)\<rparr>
                    | Some uc \<Rightarrow> d1\<lparr>UserChats := (UserChats d1)(userId \<mapsto>
                                 uc\<lparr>chats := chats uc @ [entry], ucUpdatedAt := now e\<rparr>)\<rparr>)))"

text \<open>\<^verbatim>\<open>GET /api/userchats\<close>: \<^verbatim>\<open>userChats[0]?.chats || []\<close>.\<close>

definition get_api_userchats :: "env \<Rightarrow> db \<Rightarrow> reply" where
  "get_api_userchats e d =
    (if failAt e = Some 0 then Reply 500 (Message ''Error fetching user chats!'')
     else Reply 200 (Summaries (case UserChats d demouser of None \<Rightarrow> [] | Some uc \<Rightarrow> chats uc)))"

text \<open>\<^verbatim>\<open>GET /api/pinnedchats\<close>: \<^verbatim>\<open>pinnedChats?.pinnedChats || []\<close>.\<close>

definition get_api_pinnedchats :: "env \<Rightarrow> db \<Rightarrow> reply" where
  "get_api_pinnedchats e d =
    (if failAt e = Some 0 then Reply 500 (Message ''Error fetching pinned chats!'')
     else Reply 200 (Summaries (case PinnedChats d demouser of None \<Rightarrow> [] | Some pc \<Rightarrow> pinnedChats pc)))"

text \<open>\<^verbatim>\<open>GET /api/chats/:id\<close>. Call 0 is \<^verbatim>\<open>new ObjectId(id)\<close> with \<^verbatim>\<open>Chat.findOne\<close>
  (the constructor throws on a malformed id). Whatever \<^verbatim>\<open>findOne\<close> gives, the chat or
  \<^verbatim>\<open>null\<close>, is sent with status 200.\<close>

definition get_api_chats_id :: "env \<Rightarrow> string \<Rightarrow> db \<Rightarrow> reply" where
  "get_api_chats_id e cid d =
    (let userId = demouser
     in if failAt e = Some 0 then Reply 500 (Message ''Error fetching chat!'')
        else
          let found = (case Chat d cid of
                         None \<Rightarrow> None
                       | Some c \<Rightarrow> if chatUserId c = userId then Some c else None)
          in Reply 200 (ChatDoc found))"

text \<open>\<^verbatim>\<open>updateOne({ userId }, { $pull: ... })\<close> on either listing collection: nothing
  happens without a document of the user.\<close>

definition UserChats_pull :: "time \<Rightarrow> string \<Rightarrow> string \<Rightarrow> db \<Rightarrow> db" where
  "UserChats_pull t userId c d =
    (case UserChats d userId of
       None \<Rightarrow> d
     | Some uc \<Rightarrow> d\<lparr>UserChats := (UserChats d)(userId \<mapsto>
                    uc\<lparr>chats := pull c (chats uc), ucUpdatedAt := t\<rparr>)\<rparr>)"

definition PinnedChats_pull :: "time \<Rightarrow> string \<Rightarrow> string \<Rightarrow> db \<Rightarrow> db" where
  "PinnedChats_pull t userId c d =
    (case PinnedChats d userId of
       None \<Rightarrow> d
     | Some pc \<Rightarrow> d\<lparr>PinnedChats := (PinnedChats d)(userId \<mapsto>
                    pc\<lparr>pinnedChats := pull c (pinnedChats pc), pcUpdatedAt := t\<rparr>)\<rparr>)"

text \<open>\<^verbatim>\<open>DELETE /api/chats/:id\<close>. Awaited calls: 0 the pull on \<^verbatim>\<open>UserChats\<close>, 1 the pull
  on \<^verbatim>\<open>PinnedChats\<close>, 2 \<^verbatim>\<open>Chat.deleteOne({ _id })\<close> (no \<^verbatim>\<open>userId\<close> in its filter).\<close>

definition delete_api_chats_id :: "env \<Rightarrow> string \<Rightarrow> db \<Rightarrow> reply \<times> db" where
  "delete_api_chats_id e chatId d =
    (let userId = demouser;
         failed = Reply 500 (Message ''Error deleting chat!'')
     in if failAt e = Some 0 then (failed, d)
        else
          let d1 = UserChats_pull (now e) userId chatId d
          in if failAt e = Some 1 then (failed, d1)
             else
               let d2 = PinnedChats_pull (now e) userId chatId d1
               in if failAt e = Some 2 then (failed, d2)
                  else if Chat d2 chatId \<noteq> None
                  then (Reply 200 (Message ''Chat deleted successfully!''),
                        d2\<lparr>Chat := (Chat d2)(chatId := None)\<rparr>)
                  else (Reply 404 (Message ''Chat not found!''), d2))"

text \<open>The two title updates of the rename route:
  \<^verbatim>\<open>updateOne({ userId, "chats._id": c }, { $set: { "chats.$.title": t } })\<close> and its
  \<^verbatim>\<open>PinnedChats\<close> twin.\<close>

definition UserChats_setTitle :: "time \<Rightarrow> string \<Rightarrow> string \<Rightarrow> string \<Rightarrow> db \<Rightarrow> updateResult \<times> db" where
  "UserChats_setTitle t userId c newTitle d =
    (case UserChats d userId of
       None \<Rightarrow> (\<lparr>matchedCount = 0, modifiedCount = 0\<rparr>, d)
     | Some uc \<Rightarrow>
         if some_id c (chats uc)
         then let uc' = uc\<lparr>chats := setTitle c newTitle (chats uc), ucUpdatedAt := t\<rparr>
              in (\<lparr>matchedCount = 1, modifiedCount = (if uc' = uc then 0 else 1)\<rparr>,
                  d\<lparr>UserChats := (UserChats d)(userId \<mapsto> uc')\<rparr>)
         else (\<lparr>matchedCount = 0, modifiedCount = 0\<rparr>, d))"

definition PinnedChats_setTitle :: "time \<Rightarrow> string \<Rightarrow> string \<Rightarrow> string \<Rightarrow> db \<Rightarrow> updateResult \<times> db" where
  "PinnedChats_setTitle t userId c newTitle d =
    (case PinnedChats d userId of
       None \<Rightarrow> (\<lparr>matchedCount = 0, modifiedCount = 0\<rparr>, d)
     | Some pc \<Rightarrow>
         if some_id c (pinnedChats pc)
         then let pc' = pc\<lparr>pinnedChats := setTitle c newTitle (pinnedChats pc), pcUpdatedAt := t\<rparr>
              in (\<lparr>matchedCount = 1, modifiedCount = (if pc' = pc then 0 else 1)\<rparr>,
                  d\<lparr>PinnedChats := (PinnedChats d)(userId \<mapsto> pc')\<rparr>)
         else (\<lparr>matchedCount = 0, modifiedCount = 0\<rparr>, d))"

text \<open>\<^verbatim>\<open>PUT /api/chats/:id/rename\<close>. Awaited calls: 0 the update of \<^verbatim>\<open>UserChats\<close>,
  1 the update of \<^verbatim>\<open>PinnedChats\<close>, made only when the first modified nothing.\<close>

definition put_api_chats_id_rename :: "env \<Rightarrow> string \<Rightarrow> string \<Rightarrow> db \<Rightarrow> reply \<times> db" where
  "put_api_chats_id_rename e chatId newTitle d =
    (let userId = demouser;
         failed = Reply 500 (Message ''Error renaming chat!'');
         renamed = Reply 200 (Message ''Chat renamed successfully!'');
         missing = Reply 404 (Message ''Chat not found in UserChats or PinnedChats!'')
     in if failAt e = Some 0 then (failed, d)
        else
          let (updated, d1) = UserChats_setTitle (now e) userId chatId newTitle d
          in if modifiedCount updated = 0
             then if failAt e = Some 1 then (failed, d1)
                  else
                    let (updated2, d2) = PinnedChats_setTitle (now e) userId chatId newTitle d1
                    in if modifiedCount updated2 > 0 then (renamed, d2) else (missing, d2)
             else if modifiedCount updated > 0 then (renamed, d1) else (missing, d1))"

text \<open>\<^verbatim>\<open>POST /api/pinnedchats\<close>. Awaited calls: 0 \<^verbatim>\<open>PinnedChats.findOne\<close>,
  1 \<^verbatim>\<open>pinnedChats.save()\<close>, 2 the pull on \<^verbatim>\<open>UserChats\<close>. The save validates the pushed
  element: \<^verbatim>\<open>_id\<close> and \<^verbatim>\<open>title\<close> are \<^verbatim>\<open>required\<close>, and \<^verbatim>\<open>createdAt\<close> takes its default,
  the clock.\<close>

definition post_api_pinnedchats :: "env \<Rightarrow> string \<Rightarrow> string \<Rightarrow> db \<Rightarrow> reply \<times> db" where
  "post_api_pinnedchats e chatId ttl d =
    (let userId = demouser;
         failed = Reply 500 (Message ''Error pinning chat!'');
         pinned = Reply 201 (Message ''Chat pinned successfully!'')
     in if failAt e = Some 0 then (failed, d)
        else
          let pc = (case PinnedChats d userId of
                      None \<Rightarrow> \<lparr>pinnedChats = [], pcCreatedAt = now e, pcUpdatedAt = now e\<rparr>
                    | Some pc \<Rightarrow> pc);
              isAlreadyPinned = some_id chatId (pinnedChats pc)
          in if \<not> isAlreadyPinned
             then if failAt e = Some 1 \<or> chatId = [] \<or> ttl = [] then (failed, d)
                  else
                    let pc' = pc\<lparr>pinnedChats := pinnedChats pc @
                                   [\<lparr>sid = chatId, title = ttl, createdAt = now e\<rparr>],
                                 pcUpdatedAt := now e\<rparr>;
                        d1 = d\<lparr>PinnedChats := (PinnedChats d)(userId \<mapsto> pc')\<rparr>
                    in if failAt e = Some 2 then (failed, d1)
                       else (pinned, UserChats_pull (now e) userId chatId d1)
             else (pinned, d))"

text \<open>\<^verbatim>\<open>DELETE /api/pinnedchats/:chatId\<close>. Awaited calls: 0 \<^verbatim>\<open>PinnedChats.findOne\<close>,
  1 \<^verbatim>\<open>pinnedChats.save()\<close>, 2 the push on \<^verbatim>\<open>UserChats\<close> with \<^verbatim>\<open>upsert: true\<close>.\<close>

definition delete_api_pinnedchats_chatId :: "env \<Rightarrow> string \<Rightarrow> db \<Rightarrow> reply \<times> db" where
  "delete_api_pinnedchats_chatId e chatId d =
    (let userId = demouser;
         failed = Reply 500 (Message ''Error unpinning chat!'');
         unpinned = Reply 200 (Message ''Chat unpinned successfully!'')
     in if failAt e = Some 0 then (failed, d)
        else
          (case PinnedChats d userId of
            None \<Rightarrow> (unpinned, d)
          | Some pc \<Rightarrow>
              (case find (\<lambda>x. sid x = chatId) (pinnedChats pc) of
                 None \<Rightarrow> (unpinned, d)
               | Some chatToMove \<Rightarrow>
                   if failAt e = Some 1 then (failed, d)
                   else
                     let pc' = pc\<lparr>pinnedChats := filter (\<lambda>x. sid x \<noteq> chatId) (pinnedChats pc),
                                  pcUpdatedAt := now e\<rparr>;
                         d1 = d\<lparr>PinnedChats := (PinnedChats d)(userId \<mapsto> pc')\<rparr>
                     in if failAt e = Some 2 then (failed, d1)
                        else (unpinned,
                              (case UserChats d1 userId of
                                 None \<Rightarrow> d1\<lparr>UserChats := (UserChats d1)(userId \<mapsto>
                                            \<lparr>chats = [chatToMove], ucCreatedAt = now e,
                                             ucUpdatedAt = now e\<rparr>)\<rparr>
                               | Some uc \<Rightarrow> d1\<lparr>UserChats := (UserChats d1)(userId \<mapsto>
                                            uc\<lparr>chats := chats uc @ [chatToMove],
                                               ucUpdatedAt := now e\<rparr>)\<rparr>)))))"

text \<open>The requests that change the listing, and the handler each one reaches.\<close>

datatype request =
    CreateChat string string
  | DeleteChat string
  | RenameChat string string
  | PinChat string string
  | UnpinChat string

fun handle :: "env \<Rightarrow> request \<Rightarrow> db \<Rightarrow> reply \<times> db" where
  "handle e (CreateChat text assistantResponse) d = post_api_chats e text assistantResponse d"
| "handle e (DeleteChat chatId) d = delete_api_chats_id e chatId d"
| "handle e (RenameChat chatId newTitle) d = put_api_chats_id_rename e chatId newTitle d"
| "handle e (PinChat chatId ttl) d = post_api_pinnedchats e chatId ttl d"
| "handle e (UnpinChat chatId) d = delete_api_pinnedchats_chatId e chatId d"

text \<open>A handler completed when it left its \<^verbatim>\<open>try\<close> block by the end, not through
  \<^verbatim>\<open>catch\<close>.\<close>

definition completed :: "reply \<Rightarrow> bool" where
  "completed r = (status r \<noteq> 500)"

text \<open>The two listing projections of a user, as the listing routes read them.\<close>

definition activeOf :: "db \<Rightarrow> string \<Rightarrow> summary list" where
  "activeOf d u = (case UserChats d u of None \<Rightarrow> [] | Some uc \<Rightarrow> chats uc)"

definition pinnedOf :: "db \<Rightarrow> string \<Rightarrow> summary list" where
  "pinnedOf d u = (case PinnedChats d u of None \<Rightarrow> [] | Some pc \<Rightarrow> pinnedChats pc)"


text \<open>The id generated for a new chat is new: no listing of the user holds it yet.\<close>

fun freshId :: "env \<Rightarrow> request \<Rightarrow> db \<Rightarrow> bool" where
  "freshId e (CreateChat text assistantResponse) d =
     (\<not> some_id (newId e) (activeOf d demouser) \<and> \<not> some_id (newId e) (pinnedOf d demouser))"
| "freshId e r d = True"

text \<open>Serving a sequence of requests one after the other, each with what the
  surroundings contributed to it.\<close>

fun run :: "db \<Rightarrow> (request \<times> env) list \<Rightarrow> db" where
  "run d [] = d"
| "run d ((r, e) # rs) = run (snd (handle e r d)) rs"

fun admissible :: "db \<Rightarrow> (request \<times> env) list \<Rightarrow> bool" where
  "admissible d [] = True"
| "admissible d ((r, e) # rs) =
     (completed (fst (handle e r d)) \<and> freshId e r d \<and> admissible (snd (handle e r d)) rs)"

definition emptyDb :: db where
  "emptyDb = \<lparr>Chat = Map.empty, UserChats = Map.empty, PinnedChats = Map.empty\<rparr>"

section \<open>Conversation buffer and generation\<close>

text \<open>\<^verbatim>\<open>Array.prototype.slice(start)\<close>: a negative start counts from the end, and both
  ends are clamped.\<close>

definition slice_from :: "int \<Rightarrow> 'a list \<Rightarrow> 'a list" where
  "slice_from start xs =
    (let n = int (length xs);
         k = (if start < 0 then max (n + start) 0 else min start n)
     in drop (nat k) xs)"

text \<open>\<^verbatim>\<open>Array.prototype.join(sep)\<close>.\<close>

fun join :: "string \<Rightarrow> string list \<Rightarrow> string" where
  "join sep [] = []"
| "join sep [x] = x"
| "join sep (x # y # ys) = x @ sep @ join sep (y # ys)"

text \<open>Reading \<^verbatim>\<open>obj[key]\<close> on a plain object: an own property, a property every
  object inherits from \<^verbatim>\<open>Object.prototype\<close> (a function or an object, so truthy, and
  not an array), or \<^verbatim>\<open>undefined\<close>.\<close>

datatype 'a js = Undefined | Inherited | Own 'a

definition inheritedKeys :: "string list" where
  "inheritedKeys =
    [''constructor'', ''toString'', ''toLocaleString'', ''valueOf'', ''hasOwnProperty'',
     ''isPrototypeOf'', ''propertyIsEnumerable'', ''__proto__'', ''__defineGetter__'',
     ''__defineSetter__'', ''__lookupGetter__'', ''__lookupSetter__'']"

definition readKey :: "(string \<rightharpoonup> 'a) \<Rightarrow> string \<Rightarrow> 'a js" where
  "readKey obj k =
    (case obj k of
       Some v \<Rightarrow> Own v
     | None \<Rightarrow> if k \<in> set inheritedKeys then Inherited else Undefined)"

text \<open>A command handed to \<^verbatim>\<open>client.send\<close>: the input text and, for the instant lookup,
  the data source id. What the service does with it is a parameter of each function.\<close>

record command =
  inputText :: string
  dataSourceId :: "string js"

text \<open>The module state of the generation code: the per-user buffers (the own
  properties of \<^verbatim>\<open>userSessions\<close>) and the commands sent so far, oldest first.\<close>

record gateway =
  userSessions :: "string \<rightharpoonup> string list"
  sent :: "command list"

text \<open>The buffer of a user: empty until the first request of the user makes one.\<close>

definition bufferOf :: "gateway \<Rightarrow> string \<Rightarrow> string list" where
  "bufferOf g u = (case userSessions g u of None \<Rightarrow> [] | Some h \<Rightarrow> h)"

text \<open>The grounded service rejects, or resolves with \<^verbatim>\<open>response.output?.text\<close>.\<close>

datatype kbReply = Rejected | Output "string option"

text \<open>The free-form service rejects, or its body cannot be read as an object, or it
  resolves with \<^verbatim>\<open>responseData.outputs?.[0]?.text\<close>.\<close>

datatype rtReply = SendRejected | Unreadable | Outputs "string option"

text \<open>\<^verbatim>\<open>text || "No response generated."\<close>: the empty string is falsy.\<close>

definition orFallback :: "string option \<Rightarrow> string" where
  "orFallback t =
    (case t of
       None \<Rightarrow> ''No response generated.''
     | Some s \<Rightarrow> if s = [] then ''No response generated.'' else s)"

definition conversationContext :: "string list \<Rightarrow> string" where
  "conversationContext chatHistory = join [CHR 0x0A] (slice_from (- 5) chatHistory)"

definition promptOf :: "string list \<Rightarrow> string \<Rightarrow> string" where
  "promptOf chatHistory query =
    ''Context: '' @ conversationContext chatHistory @ [CHR 0x0A] @ ''User: '' @ query"

text \<open>\<^verbatim>\<open>retrieveAndGenerateResponse\<close> of \<^verbatim>\<open>utils/bedrockService.js\<close>. An inherited key
  is truthy, so no buffer is made for it, and \<^verbatim>\<open>chatHistory.slice\<close> throws into the
  \<^verbatim>\<open>catch\<close>.\<close>

definition retrieveAndGenerateResponse ::
    "(command \<Rightarrow> kbReply) \<Rightarrow> string \<Rightarrow> string \<Rightarrow> gateway \<Rightarrow> string \<times> gateway" where
  "retrieveAndGenerateResponse service query userId g =
    (case readKey (userSessions g) userId of
       Inherited \<Rightarrow> (''Error retrieving from Knowledge Base'', g)
     | r \<Rightarrow>
         let chatHistory = (case r of Own h \<Rightarrow> h | _ \<Rightarrow> []);
             cmd = \<lparr>inputText = promptOf chatHistory query, dataSourceId = Undefined\<rparr>;
             g1 = g\<lparr>userSessions := (userSessions g)(userId \<mapsto> chatHistory @ [''User: '' @ query]),
                    sent := sent g @ [cmd]\<rparr>
         in (case service cmd of
               Rejected \<Rightarrow> (''Error retrieving from Knowledge Base'', g1)
             | Output t \<Rightarrow>
                 let generatedText = orFallback t
                 in (generatedText,
                     g1\<lparr>userSessions := (userSessions g1)(userId \<mapsto>
                          chatHistory @ [''User: '' @ query, ''Bot: '' @ generatedText])\<rparr>)))"

text \<open>\<^verbatim>\<open>generateWithBedrock\<close> of \<^verbatim>\<open>utils/bedrockService.js\<close>.\<close>

definition generateWithBedrock ::
    "(command \<Rightarrow> rtReply) \<Rightarrow> string \<Rightarrow> string \<Rightarrow> gateway \<Rightarrow> string \<times> gateway" where
  "generateWithBedrock service query userId g =
    (case readKey (userSessions g) userId of
       Inherited \<Rightarrow> (''Error in AI generation'', g)
     | r \<Rightarrow>
         let chatHistory = (case r of Own h \<Rightarrow> h | _ \<Rightarrow> []);
             cmd = \<lparr>inputText = promptOf chatHistory query, dataSourceId = Undefined\<rparr>;
             g1 = g\<lparr>userSessions := (userSessions g)(userId \<mapsto> chatHistory @ [''User: '' @ query]),
                    sent := sent g @ [cmd]\<rparr>
         in (case service cmd of
               SendRejected \<Rightarrow> (''Error in AI generation'', g1)
             | Unreadable \<Rightarrow> (''Error in AI generation'', g1)
             | Outputs t \<Rightarrow>
                 let assistantResponse = orFallback t
                 in (assistantResponse,
                     g1\<lparr>userSessions := (userSessions g1)(userId \<mapsto>
                          chatHistory @ [''User: '' @ query, ''Bot: '' @ assistantResponse])\<rparr>)))"

text \<open>\<^verbatim>\<open>POST /api/retrieve-and-generate\<close> of the server file: the same steps inlined,
  with a \<^verbatim>\<open>catch\<close> that answers 500.\<close>

definition post_api_retrieve_and_generate ::
    "(command \<Rightarrow> kbReply) \<Rightarrow> string \<Rightarrow> string \<Rightarrow> gateway \<Rightarrow> reply \<times> gateway" where
  "post_api_retrieve_and_generate service userId query g =
    (let failed = Reply 500 (ErrorText ''Error retrieving from Knowledge Base'')
     in case readKey (userSessions g) userId of
          Inherited \<Rightarrow> (failed, g)
        | r \<Rightarrow>
            let chatHistory = (case r of Own h \<Rightarrow> h | _ \<Rightarrow> []);
                cmd = \<lparr>inputText = promptOf chatHistory query, dataSourceId = Undefined\<rparr>;
                g1 = g\<lparr>userSessions := (userSessions g)(userId \<mapsto> chatHistory @ [''User: '' @ query]),
                       sent := sent g @ [cmd]\<rparr>
            in (case service cmd of
                  Rejected \<Rightarrow> (failed, g1)
                | Output t \<Rightarrow>
                    let generatedText = orFallback t
                    in (Reply 200 (ResponseText generatedText),
                        g1\<lparr>userSessions := (userSessions g1)(userId \<mapsto>
                             chatHistory @ [''User: '' @ query, ''Bot: '' @ generatedText])\<rparr>)))"

section \<open>Instant lookup\<close>

text \<open>The object literal \<^verbatim>\<open>dataSources\<close> of \<^verbatim>\<open>fetchInstantResponse\<close>, read at a key. Its
  two values come from \<^verbatim>\<open>process.env\<close>, a parameter here: a variable that is not set
  reads as \<^verbatim>\<open>undefined\<close>.\<close>

definition dataSources :: "(string \<rightharpoonup> string) \<Rightarrow> string \<Rightarrow> string js" where
  "dataSources penv k =
    (if k = ''amp-data-pipgpt'' then
       (case penv ''DATA_SOURCE_ONE_ID'' of None \<Rightarrow> Undefined | Some v \<Rightarrow> Own v)
     else if k = ''amp-test-data-2'' then
       (case penv ''DATA_SOURCE_TWO_ID'' of None \<Rightarrow> Undefined | Some v \<Rightarrow> Own v)
     else if k \<in> set inheritedKeys then Inherited
     else Undefined)"

text \<open>\<^verbatim>\<open>!dataSourceId\<close>.\<close>

fun falsy :: "string js \<Rightarrow> bool" where
  "falsy Undefined = True"
| "falsy Inherited = False"
| "falsy (Own v) = (v = [])"

text \<open>\<^verbatim>\<open>fetchInstantResponse\<close>: the \<^verbatim>\<open>throw\<close> for a falsy id sits inside the function's
  own \<^verbatim>\<open>try\<close>, whose \<^verbatim>\<open>catch\<close> returns the sentinel. The second component is the list
  of commands sent.\<close>

definition fetchInstantResponse ::
    "(string \<rightharpoonup> string) \<Rightarrow> (command \<Rightarrow> kbReply) \<Rightarrow> string \<Rightarrow> string \<Rightarrow> command list
      \<Rightarrow> string \<times> command list" where
  "fetchInstantResponse penv service query dataSource cmds =
    (let dsId = dataSources penv dataSource
     in if falsy dsId then (''Error retrieving response.'', cmds)
        else
          let cmd = \<lparr>inputText = ''User query: '' @ query, dataSourceId = dsId\<rparr>
          in (case service cmd of
                Rejected \<Rightarrow> (''Error retrieving response.'', cmds @ [cmd])
              | Output t \<Rightarrow> (orFallback t, cmds @ [cmd])))"

text \<open>\<^verbatim>\<open>POST /api/instant-lookup\<close>. \<^verbatim>\<open>fetchInstantResponse\<close> never throws, so the
  handler's \<^verbatim>\<open>catch\<close> (500) is never entered.\<close>

definition post_api_instant_lookup ::
    "(string \<rightharpoonup> string) \<Rightarrow> (command \<Rightarrow> kbReply) \<Rightarrow> string \<Rightarrow> string \<Rightarrow> command list
      \<Rightarrow> reply \<times> command list" where
  "post_api_instant_lookup penv service query dataSource cmds =
    (if query = [] \<or> dataSource = []
     then (Reply 400 (ErrorText ''Query and Data Source are required''), cmds)
     else
       let (response, cmds') = fetchInstantResponse penv service query dataSource cmds
       in (Reply 200 (ResponseText (if response = [] then ''No response generated.'' else response)),
           cmds'))"

section \<open>Documents and re-ingestion\<close>

text \<open>A document of the \<^verbatim>\<open>Document\<close> collection (\<^verbatim>\<open>documentSchema\<close>).\<close>

record document =
  docUserId :: string
  fileName :: string
  fileUrl :: string
  contentType :: string
  uploadedAt :: time

text \<open>The input of a \<^verbatim>\<open>StartIngestionJobCommand\<close>. A client token is what one call of
  \<^verbatim>\<open>uuidv4()\<close> returned; the generator is a supply that never repeats, so a token is
  the number of the call that drew it.\<close>

record ingestionInput =
  knowledgeBaseId :: string
  ingestDataSourceId :: "string option"
  clientToken :: nat
  description :: string

text \<open>The registry, the keys in the bucket, the ingestion commands handed to
  \<^verbatim>\<open>bedrockClient.send\<close> so far (oldest first, whether or not the service accepted
  them), and the number of tokens drawn.\<close>

record world =
  Document :: "string \<rightharpoonup> document"
  bucket :: "string list"
  ingestions :: "ingestionInput list"
  uuids :: nat

definition KNOWLEDGE_BASE_ID :: string where
  "KNOWLEDGE_BASE_ID = ''QAMQE57LAY''"

definition uuidv4 :: "world \<Rightarrow> nat \<times> world" where
  "uuidv4 w = (uuids w, w\<lparr>uuids := Suc (uuids w)\<rparr>)"

text \<open>\<^verbatim>\<open>fileUrl.split("/").pop()\<close>: what follows the last slash.\<close>

definition fileKeyOf :: "string \<Rightarrow> string" where
  "fileKeyOf url = rev (takeWhile (\<lambda>c. c \<noteq> CHR ''/'') (rev url))"

text \<open>\<^verbatim>\<open>triggerBedrockReIngestion\<close>. In the numbering of the delete route its awaited
  calls are 3, the listing of the bucket, and 4, the sending of the command; what
  either throws is caught inside the function and only logged.\<close>

definition triggerBedrockReIngestion :: "(string \<rightharpoonup> string) \<Rightarrow> nat option \<Rightarrow> world \<Rightarrow> world" where
  "triggerBedrockReIngestion penv fail w =
    (if fail = Some 3 then w
     else
       let objectKeys = bucket w
       in if length objectKeys > 0
          then
            let (token, w1) = uuidv4 w;
                input = \<lparr>knowledgeBaseId = KNOWLEDGE_BASE_ID,
                         ingestDataSourceId = penv ''DATA_SOURCE_ID'',
                         clientToken = token,
                         description = ''Re-ingestion after file deletion''\<rparr>
            in w1\<lparr>ingestions := ingestions w1 @ [input]\<rparr>
          else w)"

text \<open>\<^verbatim>\<open>DELETE /api/documents/:id\<close>. Awaited calls: 0 \<^verbatim>\<open>Document.findById\<close>, 1 the
  \<^verbatim>\<open>DeleteObjectCommand\<close>, 2 \<^verbatim>\<open>Document.findByIdAndDelete\<close>, then the two of
  \<^verbatim>\<open>triggerBedrockReIngestion\<close>. The \<^verbatim>\<open>error\<close> field of the 500 body is left out.\<close>

definition delete_api_documents_id ::
    "(string \<rightharpoonup> string) \<Rightarrow> nat option \<Rightarrow> string \<Rightarrow> world \<Rightarrow> reply \<times> world" where
  "delete_api_documents_id penv fail ident w =
    (let failed = Reply 500 (Message ''Error deleting document'')
     in if fail = Some 0 then (failed, w)
        else
          (case Document w ident of
             None \<Rightarrow> (Reply 404 (Message ''Document not found!''), w)
           | Some doc \<Rightarrow>
               let fileKey = fileKeyOf (fileUrl doc)
               in if fail = Some 1 then (failed, w)
                  else
                    let w1 = w\<lparr>bucket := removeAll fileKey (bucket w)\<rparr>
                    in if fail = Some 2 then (failed, w1)
                       else
                         let w2 = w1\<lparr>Document := (Document w1)(ident := None)\<rparr>
                         in (Reply 200 (Message ''Document deleted and Bedrock Knowledge Base updated!''),
                             triggerBedrockReIngestion penv fail w2)))"

text \<open>Every token on a command sent so far was drawn from the generator.\<close>

definition tokensDrawn :: "world \<Rightarrow> bool" where
  "tokensDrawn w = list_all (\<lambda>c. clientToken c < uuids w) (ingestions w)"

section \<open>Concrete inputs\<close>


text \<open>A chat is created and pinned; then it is unpinned and pinned again under the
  same title.\<close>

definition pinnedOnce :: "(request \<times> env) list" where
  "pinnedOnce =
    [(CreateChat ''What is AMP?'' ''AMP is...'', \<lparr>newId = ''c1'', now = 1, failAt = None\<rparr>),
     (PinChat ''c1'' ''What is AMP?'', \<lparr>newId = [], now = 2, failAt = None\<rparr>)]"

definition roundTrip :: "(request \<times> env) list" where
  "roundTrip =
    pinnedOnce @
    [(UnpinChat ''c1'', \<lparr>newId = [], now = 3, failAt = None\<rparr>),
     (PinChat ''c1'' ''What is AMP?'', \<lparr>newId = [], now = 4, failAt = None\<rparr>)]"

text \<open>What the surroundings contribute to a later request in which no call rejects.\<close>

definition laterEnv :: env where
  "laterEnv = \<lparr>newId = [], now = 9, failAt = None\<rparr>"

text \<open>The generation module before any request.\<close>

definition noSessions :: gateway where
  "noSessions = \<lparr>userSessions = Map.empty, sent = []\<rparr>"

text \<open>Two documents in the registry, their two objects in the bucket, and the two
  ingestion commands their uploads sent.\<close>

definition demoWorld :: world where
  "demoWorld =
    \<lparr>Document = [''d1'' \<mapsto> \<lparr>docUserId = ''u1'', fileName = ''a.pdf'',
                                fileUrl = ''https://bucket.s3.eu.amazonaws.com/k1-a.pdf'',
                                contentType = ''application/pdf'', uploadedAt = 1\<rparr>,
                 ''d2'' \<mapsto> \<lparr>docUserId = ''u1'', fileName = ''b.pdf'',
                                fileUrl = ''https://bucket.s3.eu.amazonaws.com/k2-b.pdf'',
                                contentType = ''application/pdf'', uploadedAt = 2\<rparr>],
     bucket = [''k1-a.pdf'', ''k2-b.pdf''],
     ingestions = [\<lparr>knowledgeBaseId = ''QAMQE57LAY'', ingestDataSourceId = Some ''DS1'',
                    clientToken = 0, description = ''Ingestion for file: k1-a.pdf''\<rparr>,
                   \<lparr>knowledgeBaseId = ''QAMQE57LAY'', ingestDataSourceId = Some ''DS1'',
                    clientToken = 1, description = ''Ingestion for file: k2-b.pdf''\<rparr>],
     uuids = 2\<rparr>"

text \<open>The environment variables of the process.\<close>

definition demoEnv :: "string \<rightharpoonup> string" where
  "demoEnv = [''DATA_SOURCE_ID'' \<mapsto> ''DS1'', ''DATA_SOURCE_ONE_ID'' \<mapsto> ''DS1'']"


section \<open>What each chat route does to the two listings\<close>

lemmas handler_defs =
  post_api_chats_def delete_api_chats_id_def put_api_chats_id_rename_def
  post_api_pinnedchats_def delete_api_pinnedchats_chatId_def
  UserChats_pull_def PinnedChats_pull_def UserChats_setTitle_def PinnedChats_setTitle_def
  pull_def some_id_def completed_def activeOf_def pinnedOf_def emptyDb_def demouser_def Let_def

lemma some_id_set: "some_id c xs = (c \<in> sid ` set xs)"
  by (auto simp: some_id_def list_ex_iff)

lemma sid_setTitle: "map sid (setTitle c t xs) = map sid xs"
  by (induction xs) auto

lemma filter_no_find:
  "find (\<lambda>x. sid x = c) xs = None \<Longrightarrow> filter (\<lambda>x. sid x \<noteq> c) xs = xs"
  by (induction xs) (auto split: if_splits)


lemma create_lists:
  assumes "completed (fst (post_api_chats e tx ar d))"
  shows "activeOf (snd (post_api_chats e tx ar d)) u =
           (if u = demouser
            then activeOf d u @ [\<lparr>sid = newId e, title = take 30 tx, createdAt = now e\<rparr>]
            else activeOf d u)"
    and "pinnedOf (snd (post_api_chats e tx ar d)) u = pinnedOf d u"
  using assms
  by (auto simp: post_api_chats_def completed_def activeOf_def pinnedOf_def Let_def
           split: if_splits option.splits)

lemma delete_lists:
  assumes "completed (fst (delete_api_chats_id e c d))"
  shows "activeOf (snd (delete_api_chats_id e c d)) u =
           (if u = demouser then pull c (activeOf d u) else activeOf d u)"
    and "pinnedOf (snd (delete_api_chats_id e c d)) u =
           (if u = demouser then pull c (pinnedOf d u) else pinnedOf d u)"
  using assms
  by (auto simp: delete_api_chats_id_def completed_def activeOf_def pinnedOf_def Let_def
                 UserChats_pull_def PinnedChats_pull_def pull_def
           split: if_splits option.splits)

lemma rename_lists:
  shows "map sid (activeOf (snd (put_api_chats_id_rename e c t d)) u) = map sid (activeOf d u)"
    and "map sid (pinnedOf (snd (put_api_chats_id_rename e c t d)) u) = map sid (pinnedOf d u)"
  by (auto simp: put_api_chats_id_rename_def activeOf_def pinnedOf_def Let_def
                 UserChats_setTitle_def PinnedChats_setTitle_def sid_setTitle
           split: if_splits option.splits prod.splits)

lemma pin_lists:
  assumes "completed (fst (post_api_pinnedchats e c t d))"
  shows "pinnedOf (snd (post_api_pinnedchats e c t d)) u =
           (if u = demouser \<and> \<not> some_id c (pinnedOf d demouser)
            then pinnedOf d u @ [\<lparr>sid = c, title = t, createdAt = now e\<rparr>]
            else pinnedOf d u)"
    and "activeOf (snd (post_api_pinnedchats e c t d)) u =
           (if u = demouser \<and> \<not> some_id c (pinnedOf d demouser)
            then pull c (activeOf d u)
            else activeOf d u)"
  using assms
  by (auto simp: post_api_pinnedchats_def completed_def activeOf_def pinnedOf_def Let_def
                 UserChats_pull_def pull_def some_id_def
           split: if_splits option.splits)

lemma unpin_lists:
  assumes "completed (fst (delete_api_pinnedchats_chatId e c d))"
  shows "pinnedOf (snd (delete_api_pinnedchats_chatId e c d)) u =
           (if u = demouser then filter (\<lambda>x. sid x \<noteq> c) (pinnedOf d u) else pinnedOf d u)"
    and "activeOf (snd (delete_api_pinnedchats_chatId e c d)) u =
           (if u = demouser
            then (case find (\<lambda>x. sid x = c) (pinnedOf d u) of
                    None \<Rightarrow> activeOf d u
                  | Some x \<Rightarrow> activeOf d u @ [x])
            else activeOf d u)"
  using assms
  by (auto simp: delete_api_pinnedchats_chatId_def completed_def activeOf_def pinnedOf_def Let_def
                 filter_no_find
           split: if_splits option.splits)

section \<open>Mutual exclusion of the two listings\<close>




section \<open>Pinning twice\<close>

lemma no_id_filter: "\<not> some_id c xs \<Longrightarrow> filter (\<lambda>x. sid x = c) xs = []"
  by (induction xs) (auto simp: some_id_def)

lemma distinct_one:
  "distinct (map sid xs) \<Longrightarrow> some_id c xs \<Longrightarrow> length (filter (\<lambda>x. sid x = c) xs) = 1"
proof (induction xs)
  case Nil
  then show ?case by (simp add: some_id_def)
next
  case (Cons a xs)
  show ?case
  proof (cases "sid a = c")
    case True
    with Cons.prems have "\<not> some_id c xs"
      by (auto simp: some_id_set)
    then have "filter (\<lambda>x. sid x = c) xs = []"
      by (rule no_id_filter)
    with True show ?thesis by simp
  next
    case False
    with Cons show ?thesis by (simp add: some_id_def)
  qed
qed

text \<open>No id is listed twice among the pinned chats: every completed request keeps it
  so.\<close>

lemma handle_keeps_distinct:
  assumes "distinct (map sid (pinnedOf d u))" and "completed (fst (handle e r d))"
  shows "distinct (map sid (pinnedOf (snd (handle e r d)) u))"
proof (cases r)
  case (CreateChat tx ar)
  with assms show ?thesis by (simp add: create_lists(2))
next
  case (DeleteChat x)
  with assms show ?thesis by (auto simp: delete_lists(2) pull_def distinct_map_filter)
next
  case (RenameChat x t)
  with assms show ?thesis by (simp add: rename_lists(2))
next
  case (PinChat x t)
  with assms show ?thesis by (auto simp: pin_lists(1) some_id_set)
next
  case (UnpinChat x)
  with assms show ?thesis by (auto simp: unpin_lists(1) distinct_map_filter)
qed

lemma run_keeps_distinct:
  "distinct (map sid (pinnedOf d u)) \<Longrightarrow> admissible d rs
    \<Longrightarrow> distinct (map sid (pinnedOf (run d rs) u))"
proof (induction rs arbitrary: d)
  case Nil
  then show ?case by simp
next
  case (Cons a rs)
  obtain r e where a: "a = (r, e)" by (cases a)
  with Cons.prems have "distinct (map sid (pinnedOf (snd (handle e r d)) u))"
    by (auto intro: handle_keeps_distinct)
  moreover from Cons.prems a have "admissible (snd (handle e r d)) rs" by simp
  ultimately show ?case using Cons.IH a by simp
qed

lemma pin_again_same_state:
  assumes "completed (fst (post_api_pinnedchats e1 c t1 d))"
  shows "snd (post_api_pinnedchats e2 c t2 (snd (post_api_pinnedchats e1 c t1 d)))
         = snd (post_api_pinnedchats e1 c t1 d)"
proof -
  have "some_id c (pinnedOf (snd (post_api_pinnedchats e1 c t1 d)) demouser)"
    by (simp add: pin_lists(1) [OF assms] some_id_set)
  then show ?thesis
    by (auto simp: post_api_pinnedchats_def [of e2] pinnedOf_def Let_def some_id_def
             split: option.splits)
qed

text \<open>
  Claim C6. In a store where no id is pinned twice and the chat id is not in both
  listings (every store reached from the empty one is such), let a pin of the id
  complete. Then a second pin of the same id, whatever title and clock it comes with,
  leaves the store exactly as the first left it and answers 201 (unless its own lookup
  rejects); the pinned listing holds exactly one entry with the id and the active
  listing none; and if the id was pinned already, the first pin changed nothing either:
  no second insertion, no removal from the active listing.
\<close>

theorem pin_idempotent:
  assumes "completed (fst (post_api_pinnedchats e1 c t1 d))"
    and "distinct (map sid (pinnedOf d demouser))"
    and "\<not> (some_id c (activeOf d demouser) \<and> some_id c (pinnedOf d demouser))"
  shows "snd (post_api_pinnedchats e2 c t2 (snd (post_api_pinnedchats e1 c t1 d)))
           = snd (post_api_pinnedchats e1 c t1 d)
       \<and> (failAt e2 \<noteq> Some 0 \<longrightarrow>
            fst (post_api_pinnedchats e2 c t2 (snd (post_api_pinnedchats e1 c t1 d)))
              = Reply 201 (Message ''Chat pinned successfully!''))
       \<and> length (filter (\<lambda>x. sid x = c) (pinnedOf (snd (post_api_pinnedchats e1 c t1 d)) demouser)) = 1
       \<and> \<not> some_id c (activeOf (snd (post_api_pinnedchats e1 c t1 d)) demouser)
       \<and> (some_id c (pinnedOf d demouser) \<longrightarrow> snd (post_api_pinnedchats e1 c t1 d) = d)"
proof -
  let ?d1 = "snd (post_api_pinnedchats e1 c t1 d)"
  have pinned: "some_id c (pinnedOf ?d1 demouser)"
    by (simp add: pin_lists(1) [OF assms(1)] some_id_set)
  have A: "snd (post_api_pinnedchats e2 c t2 ?d1) = ?d1"
    by (rule pin_again_same_state [OF assms(1)])
  have B: "failAt e2 \<noteq> Some 0 \<longrightarrow>
            fst (post_api_pinnedchats e2 c t2 ?d1) = Reply 201 (Message ''Chat pinned successfully!'')"
    using pinned
    by (auto simp: post_api_pinnedchats_def [of e2] pinnedOf_def Let_def some_id_def
             split: option.splits)
  have C: "length (filter (\<lambda>x. sid x = c) (pinnedOf ?d1 demouser)) = 1"
  proof (cases "some_id c (pinnedOf d demouser)")
    case True
    then show ?thesis
      using assms(2) by (simp add: pin_lists(1) [OF assms(1)] distinct_one)
  next
    case False
    then show ?thesis
      by (simp add: pin_lists(1) [OF assms(1)] no_id_filter)
  qed
  have D: "\<not> some_id c (activeOf ?d1 demouser)"
    using assms(3) by (auto simp: pin_lists(2) [OF assms(1)] some_id_set pull_def)
  have E: "some_id c (pinnedOf d demouser) \<longrightarrow> ?d1 = d"
    by (auto simp: post_api_pinnedchats_def pinnedOf_def Let_def some_id_def
             split: option.splits)
  from A B C D E show ?thesis by blast
qed

theorem pin_idempotent_witness:
  "some_id ''c1'' (pinnedOf (run emptyDb pinnedOnce) demouser)
   \<and> snd (post_api_pinnedchats laterEnv ''c1'' ''AMP again''
            (snd (post_api_pinnedchats laterEnv ''c1'' ''AMP'' (run emptyDb pinnedOnce))))
       = snd (post_api_pinnedchats laterEnv ''c1'' ''AMP'' (run emptyDb pinnedOnce))
   \<and> fst (post_api_pinnedchats laterEnv ''c1'' ''AMP again''
            (snd (post_api_pinnedchats laterEnv ''c1'' ''AMP'' (run emptyDb pinnedOnce))))
       = Reply 201 (Message ''Chat pinned successfully!'')
   \<and> length (filter (\<lambda>x. sid x = ''c1'')
        (pinnedOf (snd (post_api_pinnedchats laterEnv ''c1'' ''AMP'' (run emptyDb pinnedOnce))) demouser)) = 1
   \<and> \<not> some_id ''c1''
        (activeOf (snd (post_api_pinnedchats laterEnv ''c1'' ''AMP'' (run emptyDb pinnedOnce))) demouser)
   \<and> snd (post_api_pinnedchats laterEnv ''c1'' ''AMP'' (run emptyDb pinnedOnce))
       = run emptyDb pinnedOnce"
proof -
  let ?d = "run emptyDb pinnedOnce"
  have h1: "completed (fst (post_api_pinnedchats laterEnv ''c1'' ''AMP'' ?d))"
    by (simp add: pinnedOnce_def laterEnv_def handler_defs)
  have h2: "distinct (map sid (pinnedOf ?d demouser))"
    by (simp add: pinnedOnce_def handler_defs)
  have h3: "\<not> (some_id ''c1'' (activeOf ?d demouser) \<and> some_id ''c1'' (pinnedOf ?d demouser))"
    by (simp add: pinnedOnce_def handler_defs)
  have h4: "some_id ''c1'' (pinnedOf ?d demouser)"
    by (simp add: pinnedOnce_def handler_defs)
  have h5: "failAt laterEnv \<noteq> Some 0"
    by (simp add: laterEnv_def)
  from pin_idempotent [OF h1 h2 h3, of laterEnv "''AMP again''"] h4 h5
  show ?thesis by blast
qed

section \<open>Unpin, then pin\<close>

text \<open>
  Claim C2, amended. Let a chat id be pinned, and let an unpin of it and then a pin
  of it complete. The unpin carries the pinned summary as it is, title and createdAt
  included, to the end of the active listing and leaves no entry with the id among the
  pinned. The pin then restores the membership: the pinned listing holds exactly one
  entry with the id and the active listing none. That entry is a new one: its title
  is the title sent with the pin request and its createdAt is the clock at the pin.
\<close>

theorem unpin_then_pin:
  assumes "some_id c (pinnedOf d demouser)"
    and "completed (fst (delete_api_pinnedchats_chatId e1 c d))"
    and "completed (fst (post_api_pinnedchats e2 c t (snd (delete_api_pinnedchats_chatId e1 c d))))"
  shows "(\<exists>x. find (\<lambda>x. sid x = c) (pinnedOf d demouser) = Some x
            \<and> activeOf (snd (delete_api_pinnedchats_chatId e1 c d)) demouser = activeOf d demouser @ [x])
       \<and> \<not> some_id c (pinnedOf (snd (delete_api_pinnedchats_chatId e1 c d)) demouser)
       \<and> filter (\<lambda>x. sid x = c)
            (pinnedOf (snd (post_api_pinnedchats e2 c t (snd (delete_api_pinnedchats_chatId e1 c d)))) demouser)
           = [\<lparr>sid = c, title = t, createdAt = now e2\<rparr>]
       \<and> \<not> some_id c
            (activeOf (snd (post_api_pinnedchats e2 c t (snd (delete_api_pinnedchats_chatId e1 c d)))) demouser)"
proof -
  let ?d1 = "snd (delete_api_pinnedchats_chatId e1 c d)"
  let ?d2 = "snd (post_api_pinnedchats e2 c t ?d1)"
  from assms(1) obtain x where x: "find (\<lambda>x. sid x = c) (pinnedOf d demouser) = Some x"
    by (cases "find (\<lambda>x. sid x = c) (pinnedOf d demouser)")
       (auto simp: find_None_iff some_id_set)
  have A: "activeOf ?d1 demouser = activeOf d demouser @ [x]"
    by (simp add: unpin_lists(2) [OF assms(2)] x)
  have B: "\<not> some_id c (pinnedOf ?d1 demouser)"
    by (auto simp: unpin_lists(1) [OF assms(2)] some_id_set)
  have C: "filter (\<lambda>x. sid x = c) (pinnedOf ?d2 demouser) = [\<lparr>sid = c, title = t, createdAt = now e2\<rparr>]"
    using B by (simp add: pin_lists(1) [OF assms(3)] no_id_filter)
  have D: "\<not> some_id c (activeOf ?d2 demouser)"
    using B by (auto simp: pin_lists(2) [OF assms(3)] some_id_set pull_def)
  from x A B C D show ?thesis by blast
qed

theorem unpin_then_pin_witness:
  "some_id ''c1'' (pinnedOf (run emptyDb pinnedOnce) demouser)
   \<and> filter (\<lambda>x. sid x = ''c1'')
        (pinnedOf (snd (post_api_pinnedchats laterEnv ''c1'' ''AMP''
           (snd (delete_api_pinnedchats_chatId laterEnv ''c1'' (run emptyDb pinnedOnce))))) demouser)
       = [\<lparr>sid = ''c1'', title = ''AMP'', createdAt = 9\<rparr>]
   \<and> \<not> some_id ''c1''
        (activeOf (snd (post_api_pinnedchats laterEnv ''c1'' ''AMP''
           (snd (delete_api_pinnedchats_chatId laterEnv ''c1'' (run emptyDb pinnedOnce))))) demouser)"
proof -
  let ?d = "run emptyDb pinnedOnce"
  have h1: "some_id ''c1'' (pinnedOf ?d demouser)"
    by (simp add: pinnedOnce_def handler_defs)
  have h2: "completed (fst (delete_api_pinnedchats_chatId laterEnv ''c1'' ?d))"
    by (simp add: pinnedOnce_def laterEnv_def handler_defs)
  have h3: "completed (fst (post_api_pinnedchats laterEnv ''c1'' ''AMP''
              (snd (delete_api_pinnedchats_chatId laterEnv ''c1'' ?d))))"
    by (simp add: pinnedOnce_def laterEnv_def handler_defs)
  have n: "now laterEnv = 9"
    by (simp add: laterEnv_def)
  from unpin_then_pin [OF h1 h2 h3] h1 n show ?thesis by simp
qed

text \<open>The claim as it stands fails: pinned at time 2, unpinned, and pinned again at time
  4 under the very same title, the chat is listed with createdAt 4, not 2.\<close>

theorem round_trip_counterexample:
  "pinnedOf (run emptyDb pinnedOnce) demouser
     = [\<lparr>sid = ''c1'', title = ''What is AMP?'', createdAt = 2\<rparr>]
   \<and> pinnedOf (run emptyDb roundTrip) demouser
     = [\<lparr>sid = ''c1'', title = ''What is AMP?'', createdAt = 4\<rparr>]
   \<and> map createdAt (pinnedOf (run emptyDb roundTrip) demouser)
     \<noteq> map createdAt (pinnedOf (run emptyDb pinnedOnce) demouser)"
  by (simp add: roundTrip_def pinnedOnce_def handler_defs)

section \<open>Rename\<close>






lemma PinnedChats_setTitle_miss:
  assumes "\<not> some_id c (pinnedOf d u)"
  shows "PinnedChats_setTitle t u c nt d = (\<lparr>matchedCount = 0, modifiedCount = 0\<rparr>, d)"
  using assms by (simp add: PinnedChats_setTitle_def pinnedOf_def some_id_def split: option.splits)






text \<open>Where the clock reads exactly the stored \<^verbatim>\<open>updatedAt\<close> and the row already has
  the new title, the update leaves the document as it was and counts as not modified:
  the handler goes on to the pinned listing. This is why the clock is asked to be ahead.\<close>

lemma rename_unchanged_document:
  assumes "UserChats d demouser = Some uc" and "some_id c (chats uc)"
    and "setTitle c t (chats uc) = chats uc" and "ucUpdatedAt uc = now e"
    and "\<not> some_id c (pinnedOf d demouser)"
    and "failAt e \<noteq> Some 0" and "failAt e \<noteq> Some 1"
  shows "put_api_chats_id_rename e c t d =
           (Reply 404 (Message ''Chat not found in UserChats or PinnedChats!''), d)"
proof -
  have same: "uc\<lparr>ucUpdatedAt := now e\<rparr> = uc"
    using assms(4) by (cases uc) simp
  have keep: "d\<lparr>UserChats := (UserChats d)(demouser \<mapsto> uc)\<rparr> = d"
    using assms(1) by (simp add: fun_upd_idem)
  have first: "UserChats_setTitle (now e) demouser c t d = (\<lparr>matchedCount = 1, modifiedCount = 0\<rparr>, d)"
    using assms(1,2,3) by (simp add: UserChats_setTitle_def Let_def same keep)
  show ?thesis
    using assms(5,6,7)
    by (simp add: put_api_chats_id_rename_def first PinnedChats_setTitle_miss)
qed



section \<open>Delete, then fetch\<close>

text \<open>A completed delete leaves the id in neither listing and no chat under it; it
  answers 200 when the chat was there and 404 when it was not, the two pulls being made
  either way. A fetch of the id then finds nothing, and sends that with status 200.\<close>

lemma delete_then_fetch:
  assumes "completed (fst (delete_api_chats_id e c d))" and "failAt e' \<noteq> Some 0"
  shows "\<not> some_id c (activeOf (snd (delete_api_chats_id e c d)) demouser)"
    and "\<not> some_id c (pinnedOf (snd (delete_api_chats_id e c d)) demouser)"
    and "Chat (snd (delete_api_chats_id e c d)) c = None"
    and "status (fst (delete_api_chats_id e c d)) = (if Chat d c = None then 404 else 200)"
    and "get_api_chats_id e' c (snd (delete_api_chats_id e c d)) = Reply 200 (ChatDoc None)"
proof -
  show "\<not> some_id c (activeOf (snd (delete_api_chats_id e c d)) demouser)"
    by (auto simp: delete_lists(1) [OF assms(1)] some_id_set pull_def)
  show "\<not> some_id c (pinnedOf (snd (delete_api_chats_id e c d)) demouser)"
    by (auto simp: delete_lists(2) [OF assms(1)] some_id_set pull_def)
  show gone: "Chat (snd (delete_api_chats_id e c d)) c = None"
    using assms(1)
    by (auto simp: delete_api_chats_id_def completed_def Let_def UserChats_pull_def
                   PinnedChats_pull_def split: if_splits option.splits)
  show "status (fst (delete_api_chats_id e c d)) = (if Chat d c = None then 404 else 200)"
    using assms(1)
    by (auto simp: delete_api_chats_id_def completed_def Let_def UserChats_pull_def
                   PinnedChats_pull_def split: if_splits option.splits)
  show "get_api_chats_id e' c (snd (delete_api_chats_id e c d)) = Reply 200 (ChatDoc None)"
    using assms(2) gone by (simp add: get_api_chats_id_def)
qed

text \<open>
  Claim C9, at the failing input. A chat is created and pinned, then deleted: the delete
  answers 200 and the id is gone from both listings and from the chat collection. The
  fetch by id that follows answers with status 200 and an empty body, where the claim
  has it report NotFound.
\<close>

theorem fetch_after_delete_answers_200:
  "fst (delete_api_chats_id laterEnv ''c1'' (run emptyDb pinnedOnce))
     = Reply 200 (Message ''Chat deleted successfully!'')
   \<and> Chat (snd (delete_api_chats_id laterEnv ''c1'' (run emptyDb pinnedOnce))) ''c1'' = None
   \<and> activeOf (snd (delete_api_chats_id laterEnv ''c1'' (run emptyDb pinnedOnce))) demouser = []
   \<and> pinnedOf (snd (delete_api_chats_id laterEnv ''c1'' (run emptyDb pinnedOnce))) demouser = []
   \<and> get_api_chats_id laterEnv ''c1'' (snd (delete_api_chats_id laterEnv ''c1'' (run emptyDb pinnedOnce)))
       = Reply 200 (ChatDoc None)"
  by (simp add: pinnedOnce_def laterEnv_def get_api_chats_id_def handler_defs)

section \<open>The conversation buffer\<close>

text \<open>Each generation function, written out by the three ways it can go: the key is an
  inherited one, the service fails, the service answers.\<close>

lemma slice_last_five: "slice_from (- 5) h = drop (length h - 5) h"
  by (auto simp: slice_from_def Let_def max_def intro: arg_cong [where f = "\<lambda>k. drop k h"])

lemma chatHistory_is_buffer:
  "readKey (userSessions g) u \<noteq> Inherited \<Longrightarrow>
     (case readKey (userSessions g) u of Own h \<Rightarrow> h | _ \<Rightarrow> []) = bufferOf g u"
  by (auto simp: readKey_def bufferOf_def split: option.splits if_splits)

lemma rag_effect:
  "retrieveAndGenerateResponse service q u g =
    (if readKey (userSessions g) u = Inherited then (''Error retrieving from Knowledge Base'', g)
     else
       let cmd = \<lparr>inputText = promptOf (bufferOf g u) q, dataSourceId = Undefined\<rparr>
       in (case service cmd of
             Rejected \<Rightarrow>
               (''Error retrieving from Knowledge Base'',
                \<lparr>userSessions = (userSessions g)(u \<mapsto> bufferOf g u @ [''User: '' @ q]),
                 sent = sent g @ [cmd]\<rparr>)
           | Output t \<Rightarrow>
               (orFallback t,
                \<lparr>userSessions = (userSessions g)(u \<mapsto> bufferOf g u @ [''User: '' @ q, ''Bot: '' @ orFallback t]),
                 sent = sent g @ [cmd]\<rparr>)))"
  by (cases g)
     (auto simp: retrieveAndGenerateResponse_def readKey_def bufferOf_def Let_def
           split: option.splits js.splits kbReply.splits)

lemma gen_effect:
  "generateWithBedrock service q u g =
    (if readKey (userSessions g) u = Inherited then (''Error in AI generation'', g)
     else
       let cmd = \<lparr>inputText = promptOf (bufferOf g u) q, dataSourceId = Undefined\<rparr>
       in (case service cmd of
             Outputs t \<Rightarrow>
               (orFallback t,
                \<lparr>userSessions = (userSessions g)(u \<mapsto> bufferOf g u @ [''User: '' @ q, ''Bot: '' @ orFallback t]),
                 sent = sent g @ [cmd]\<rparr>)
           | _ \<Rightarrow>
               (''Error in AI generation'',
                \<lparr>userSessions = (userSessions g)(u \<mapsto> bufferOf g u @ [''User: '' @ q]),
                 sent = sent g @ [cmd]\<rparr>)))"
  by (cases g)
     (auto simp: generateWithBedrock_def readKey_def bufferOf_def Let_def
           split: option.splits js.splits rtReply.splits)

lemma route_effect:
  "post_api_retrieve_and_generate service u q g =
    (if readKey (userSessions g) u = Inherited
     then (Reply 500 (ErrorText ''Error retrieving from Knowledge Base''), g)
     else
       let cmd = \<lparr>inputText = promptOf (bufferOf g u) q, dataSourceId = Undefined\<rparr>
       in (case service cmd of
             Rejected \<Rightarrow>
               (Reply 500 (ErrorText ''Error retrieving from Knowledge Base''),
                \<lparr>userSessions = (userSessions g)(u \<mapsto> bufferOf g u @ [''User: '' @ q]),
                 sent = sent g @ [cmd]\<rparr>)
           | Output t \<Rightarrow>
               (Reply 200 (ResponseText (orFallback t)),
                \<lparr>userSessions = (userSessions g)(u \<mapsto> bufferOf g u @ [''User: '' @ q, ''Bot: '' @ orFallback t]),
                 sent = sent g @ [cmd]\<rparr>)))"
  by (cases g)
     (auto simp: post_api_retrieve_and_generate_def readKey_def bufferOf_def Let_def
           split: option.splits js.splits kbReply.splits)

lemma orFallback_nonempty: "orFallback t \<noteq> []"
  by (simp add: orFallback_def split: option.splits)

lemma orFallback_cases: "orFallback t = ''No response generated.'' \<or> t = Some (orFallback t)"
  by (simp add: orFallback_def split: option.splits)

lemma rag_buffer_grows:
  "prefix (bufferOf g v) (bufferOf (snd (retrieveAndGenerateResponse service q u g)) v)"
  by (auto simp: rag_effect bufferOf_def Let_def split: kbReply.splits option.splits)

lemma gen_buffer_grows:
  "prefix (bufferOf g v) (bufferOf (snd (generateWithBedrock service q u g)) v)"
  by (auto simp: gen_effect bufferOf_def Let_def split: rtReply.splits option.splits)

lemma route_buffer_grows:
  "prefix (bufferOf g v) (bufferOf (snd (post_api_retrieve_and_generate service u q g)) v)"
  by (auto simp: route_effect bufferOf_def Let_def split: kbReply.splits option.splits)

text \<open>
  Claim C7. The context is built from \<^verbatim>\<open>slice(-5)\<close> of the buffer: the last five
  turns when there are more than five and all of them otherwise, in the order of the
  buffer; of twelve turns it holds the eighth to the twelfth. In both gateway functions
  and in the inlined route the command sent carries exactly this context before the
  query. The buffer itself only grows: for every user, the buffer before a call is a
  prefix of the buffer after it.
\<close>

theorem context_last_five:
  "slice_from (- 5) h = drop (length h - 5) h
   \<and> length (slice_from (- 5) h) = min 5 (length h)
   \<and> suffix (slice_from (- 5) h) h
   \<and> conversationContext h = join [CHR 0x0A] (drop (length h - 5) h)
   \<and> slice_from (- 5) [t1, t2, t3, t4, t5, t6, t7, t8, t9, t10, t11, t12 :: string]
       = [t8, t9, t10, t11, t12]
   \<and> sent (snd (retrieveAndGenerateResponse service q u g))
       = (if readKey (userSessions g) u = Inherited then sent g
          else sent g @ [\<lparr>inputText = ''Context: '' @ conversationContext (bufferOf g u)
                                       @ [CHR 0x0A] @ ''User: '' @ q,
                           dataSourceId = Undefined\<rparr>])
   \<and> sent (snd (generateWithBedrock service' q u g))
       = (if readKey (userSessions g) u = Inherited then sent g
          else sent g @ [\<lparr>inputText = ''Context: '' @ conversationContext (bufferOf g u)
                                       @ [CHR 0x0A] @ ''User: '' @ q,
                           dataSourceId = Undefined\<rparr>])
   \<and> sent (snd (post_api_retrieve_and_generate service u q g))
       = (if readKey (userSessions g) u = Inherited then sent g
          else sent g @ [\<lparr>inputText = ''Context: '' @ conversationContext (bufferOf g u)
                                       @ [CHR 0x0A] @ ''User: '' @ q,
                           dataSourceId = Undefined\<rparr>])
   \<and> prefix (bufferOf g v) (bufferOf (snd (retrieveAndGenerateResponse service q u g)) v)
   \<and> prefix (bufferOf g v) (bufferOf (snd (generateWithBedrock service' q u g)) v)
   \<and> prefix (bufferOf g v) (bufferOf (snd (post_api_retrieve_and_generate service u q g)) v)"
proof -
  have A: "slice_from (- 5) h = drop (length h - 5) h"
    by (rule slice_last_five)
  have B: "length (slice_from (- 5) h) = min 5 (length h)"
    by (simp add: A)
  have C: "suffix (slice_from (- 5) h) h"
    by (simp add: A suffix_drop)
  have D: "conversationContext h = join [CHR 0x0A] (drop (length h - 5) h)"
    by (simp add: conversationContext_def A)
  have E: "slice_from (- 5) [t1, t2, t3, t4, t5, t6, t7, t8, t9, t10, t11, t12 :: string]
             = [t8, t9, t10, t11, t12]"
    by (simp add: slice_last_five)
  have F: "sent (snd (retrieveAndGenerateResponse service q u g))
       = (if readKey (userSessions g) u = Inherited then sent g
          else sent g @ [\<lparr>inputText = ''Context: '' @ conversationContext (bufferOf g u)
                                       @ [CHR 0x0A] @ ''User: '' @ q,
                           dataSourceId = Undefined\<rparr>])"
    by (simp add: rag_effect promptOf_def Let_def split: kbReply.splits)
  have G: "sent (snd (generateWithBedrock service' q u g))
       = (if readKey (userSessions g) u = Inherited then sent g
          else sent g @ [\<lparr>inputText = ''Context: '' @ conversationContext (bufferOf g u)
                                       @ [CHR 0x0A] @ ''User: '' @ q,
                           dataSourceId = Undefined\<rparr>])"
    by (simp add: gen_effect promptOf_def Let_def split: rtReply.splits)
  have H: "sent (snd (post_api_retrieve_and_generate service u q g))
       = (if readKey (userSessions g) u = Inherited then sent g
          else sent g @ [\<lparr>inputText = ''Context: '' @ conversationContext (bufferOf g u)
                                       @ [CHR 0x0A] @ ''User: '' @ q,
                           dataSourceId = Undefined\<rparr>])"
    by (simp add: route_effect promptOf_def Let_def split: kbReply.splits)
  from A B C D E F G H rag_buffer_grows [of g v service q u]
    gen_buffer_grows [of g v service' q u] route_buffer_grows [of g v service u q]
  show ?thesis by blast
qed


text \<open>
  Claim C10. When the call reaches the service (the user id is not an inherited key)
  and the generation fails, in the grounded function, the free-form function or the
  inlined route, the buffer of the user is the old one with the user turn appended and
  no bot turn: one entry longer. The turn is the last of the window of the next
  request, whose command is built from the buffer with it.
\<close>

theorem failed_generation_keeps_user_turn:
  assumes "readKey (userSessions g) u \<noteq> Inherited"
  shows "(service \<lparr>inputText = promptOf (bufferOf g u) q, dataSourceId = Undefined\<rparr> = Rejected \<longrightarrow>
            fst (retrieveAndGenerateResponse service q u g) = ''Error retrieving from Knowledge Base''
          \<and> bufferOf (snd (retrieveAndGenerateResponse service q u g)) u = bufferOf g u @ [''User: '' @ q]
          \<and> length (bufferOf (snd (retrieveAndGenerateResponse service q u g)) u) = Suc (length (bufferOf g u))
          \<and> last (slice_from (- 5) (bufferOf (snd (retrieveAndGenerateResponse service q u g)) u))
              = ''User: '' @ q
          \<and> sent (snd (retrieveAndGenerateResponse service2 q2 u
                          (snd (retrieveAndGenerateResponse service q u g))))
              = sent (snd (retrieveAndGenerateResponse service q u g))
                @ [\<lparr>inputText = promptOf (bufferOf g u @ [''User: '' @ q]) q2, dataSourceId = Undefined\<rparr>])
       \<and> (service' \<lparr>inputText = promptOf (bufferOf g u) q, dataSourceId = Undefined\<rparr> = SendRejected
          \<or> service' \<lparr>inputText = promptOf (bufferOf g u) q, dataSourceId = Undefined\<rparr> = Unreadable \<longrightarrow>
            fst (generateWithBedrock service' q u g) = ''Error in AI generation''
          \<and> bufferOf (snd (generateWithBedrock service' q u g)) u = bufferOf g u @ [''User: '' @ q]
          \<and> length (bufferOf (snd (generateWithBedrock service' q u g)) u) = Suc (length (bufferOf g u))
          \<and> last (slice_from (- 5) (bufferOf (snd (generateWithBedrock service' q u g)) u))
              = ''User: '' @ q
          \<and> sent (snd (generateWithBedrock service2' q2 u (snd (generateWithBedrock service' q u g))))
              = sent (snd (generateWithBedrock service' q u g))
                @ [\<lparr>inputText = promptOf (bufferOf g u @ [''User: '' @ q]) q2, dataSourceId = Undefined\<rparr>])
       \<and> (service \<lparr>inputText = promptOf (bufferOf g u) q, dataSourceId = Undefined\<rparr> = Rejected \<longrightarrow>
            fst (post_api_retrieve_and_generate service u q g)
              = Reply 500 (ErrorText ''Error retrieving from Knowledge Base'')
          \<and> bufferOf (snd (post_api_retrieve_and_generate service u q g)) u = bufferOf g u @ [''User: '' @ q]
          \<and> length (bufferOf (snd (post_api_retrieve_and_generate service u q g)) u)
              = Suc (length (bufferOf g u))
          \<and> last (slice_from (- 5) (bufferOf (snd (post_api_retrieve_and_generate service u q g)) u))
              = ''User: '' @ q
          \<and> sent (snd (post_api_retrieve_and_generate service2 u q2
                          (snd (post_api_retrieve_and_generate service u q g))))
              = sent (snd (post_api_retrieve_and_generate service u q g))
                @ [\<lparr>inputText = promptOf (bufferOf g u @ [''User: '' @ q]) q2, dataSourceId = Undefined\<rparr>])"
proof -
  have own: "readKey ((userSessions g)(u \<mapsto> h)) u \<noteq> Inherited" for h
    by (simp add: readKey_def)
  have lst: "last (slice_from (- 5) (h @ [x])) = x" for h :: "string list" and x
    by (simp add: slice_last_five)
  have A: "service \<lparr>inputText = promptOf (bufferOf g u) q, dataSourceId = Undefined\<rparr> = Rejected \<longrightarrow>
            fst (retrieveAndGenerateResponse service q u g) = ''Error retrieving from Knowledge Base''
          \<and> bufferOf (snd (retrieveAndGenerateResponse service q u g)) u = bufferOf g u @ [''User: '' @ q]
          \<and> length (bufferOf (snd (retrieveAndGenerateResponse service q u g)) u) = Suc (length (bufferOf g u))
          \<and> last (slice_from (- 5) (bufferOf (snd (retrieveAndGenerateResponse service q u g)) u))
              = ''User: '' @ q
          \<and> sent (snd (retrieveAndGenerateResponse service2 q2 u
                          (snd (retrieveAndGenerateResponse service q u g))))
              = sent (snd (retrieveAndGenerateResponse service q u g))
                @ [\<lparr>inputText = promptOf (bufferOf g u @ [''User: '' @ q]) q2, dataSourceId = Undefined\<rparr>]"
    using assms
    by (auto simp: rag_effect [of service] rag_effect [of service2] own lst Let_def bufferOf_def
             split: kbReply.splits)
  have B: "service' \<lparr>inputText = promptOf (bufferOf g u) q, dataSourceId = Undefined\<rparr> = SendRejected
          \<or> service' \<lparr>inputText = promptOf (bufferOf g u) q, dataSourceId = Undefined\<rparr> = Unreadable \<longrightarrow>
            fst (generateWithBedrock service' q u g) = ''Error in AI generation''
          \<and> bufferOf (snd (generateWithBedrock service' q u g)) u = bufferOf g u @ [''User: '' @ q]
          \<and> length (bufferOf (snd (generateWithBedrock service' q u g)) u) = Suc (length (bufferOf g u))
          \<and> last (slice_from (- 5) (bufferOf (snd (generateWithBedrock service' q u g)) u))
              = ''User: '' @ q
          \<and> sent (snd (generateWithBedrock service2' q2 u (snd (generateWithBedrock service' q u g))))
              = sent (snd (generateWithBedrock service' q u g))
                @ [\<lparr>inputText = promptOf (bufferOf g u @ [''User: '' @ q]) q2, dataSourceId = Undefined\<rparr>]"
    using assms
    by (auto simp: gen_effect [of service'] gen_effect [of service2'] own lst Let_def bufferOf_def
             split: rtReply.splits)
  have C: "service \<lparr>inputText = promptOf (bufferOf g u) q, dataSourceId = Undefined\<rparr> = Rejected \<longrightarrow>
            fst (post_api_retrieve_and_generate service u q g)
              = Reply 500 (ErrorText ''Error retrieving from Knowledge Base'')
          \<and> bufferOf (snd (post_api_retrieve_and_generate service u q g)) u = bufferOf g u @ [''User: '' @ q]
          \<and> length (bufferOf (snd (post_api_retrieve_and_generate service u q g)) u)
              = Suc (length (bufferOf g u))
          \<and> last (slice_from (- 5) (bufferOf (snd (post_api_retrieve_and_generate service u q g)) u))
              = ''User: '' @ q
          \<and> sent (snd (post_api_retrieve_and_generate service2 u q2
                          (snd (post_api_retrieve_and_generate service u q g))))
              = sent (snd (post_api_retrieve_and_generate service u q g))
                @ [\<lparr>inputText = promptOf (bufferOf g u @ [''User: '' @ q]) q2, dataSourceId = Undefined\<rparr>]"
    using assms
    by (auto simp: route_effect [of service] route_effect [of service2] own lst Let_def bufferOf_def
             split: kbReply.splits)
  from A B C show ?thesis by blast
qed

theorem failed_generation_keeps_user_turn_witness:
  "fst (retrieveAndGenerateResponse (\<lambda>c. Rejected) ''hello'' ''u1'' noSessions)
     = ''Error retrieving from Knowledge Base''
   \<and> bufferOf (snd (retrieveAndGenerateResponse (\<lambda>c. Rejected) ''hello'' ''u1'' noSessions)) ''u1''
     = [''User: hello'']
   \<and> fst (generateWithBedrock (\<lambda>c. Unreadable) ''hello'' ''u1'' noSessions) = ''Error in AI generation''
   \<and> bufferOf (snd (generateWithBedrock (\<lambda>c. Unreadable) ''hello'' ''u1'' noSessions)) ''u1''
     = [''User: hello'']
   \<and> fst (post_api_retrieve_and_generate (\<lambda>c. Rejected) ''u1'' ''hello'' noSessions)
     = Reply 500 (ErrorText ''Error retrieving from Knowledge Base'')
   \<and> bufferOf (snd (post_api_retrieve_and_generate (\<lambda>c. Rejected) ''u1'' ''hello'' noSessions)) ''u1''
     = [''User: hello'']"
proof -
  have h: "readKey (userSessions noSessions) ''u1'' \<noteq> Inherited"
    by (simp add: readKey_def noSessions_def inheritedKeys_def)
  have b: "bufferOf noSessions ''u1'' = []"
    by (simp add: bufferOf_def noSessions_def)
  from failed_generation_keeps_user_turn [OF h, of "\<lambda>c. Rejected" "''hello''" _ _ "\<lambda>c. Unreadable"] b
  show ?thesis by simp
qed

section \<open>Failures of the generation service\<close>

text \<open>
  Claim C4, amended. The two gateway functions always return a text that is not empty:
  their error sentinel, the fallback, or the text the service gave; a failure of the
  service never leaves them as an exception. The inlined route
  \<^verbatim>\<open>/api/retrieve-and-generate\<close> is different: when the buffer cannot be read or the
  service rejects, it answers with status 500 and the sentinel in an error body;
  otherwise with 200 and the text or the fallback.
\<close>

theorem gateway_absorbs_failures:
  "fst (retrieveAndGenerateResponse service q u g) \<noteq> []
   \<and> (fst (retrieveAndGenerateResponse service q u g) = ''Error retrieving from Knowledge Base''
      \<or> fst (retrieveAndGenerateResponse service q u g) = ''No response generated.''
      \<or> service \<lparr>inputText = promptOf (bufferOf g u) q, dataSourceId = Undefined\<rparr>
          = Output (Some (fst (retrieveAndGenerateResponse service q u g))))
   \<and> fst (generateWithBedrock service' q u g) \<noteq> []
   \<and> (fst (generateWithBedrock service' q u g) = ''Error in AI generation''
      \<or> fst (generateWithBedrock service' q u g) = ''No response generated.''
      \<or> service' \<lparr>inputText = promptOf (bufferOf g u) q, dataSourceId = Undefined\<rparr>
          = Outputs (Some (fst (generateWithBedrock service' q u g))))
   \<and> (fst (post_api_retrieve_and_generate service u q g)
         = Reply 500 (ErrorText ''Error retrieving from Knowledge Base'')
       \<and> (readKey (userSessions g) u = Inherited
          \<or> service \<lparr>inputText = promptOf (bufferOf g u) q, dataSourceId = Undefined\<rparr> = Rejected)
      \<or> (\<exists>t. service \<lparr>inputText = promptOf (bufferOf g u) q, dataSourceId = Undefined\<rparr> = Output t
            \<and> fst (post_api_retrieve_and_generate service u q g)
                = Reply 200 (ResponseText (orFallback t))))"
proof -
  have A: "fst (retrieveAndGenerateResponse service q u g) \<noteq> []"
    by (simp add: rag_effect Let_def orFallback_nonempty split: kbReply.splits)
  have B: "fst (retrieveAndGenerateResponse service q u g) = ''Error retrieving from Knowledge Base''
      \<or> fst (retrieveAndGenerateResponse service q u g) = ''No response generated.''
      \<or> service \<lparr>inputText = promptOf (bufferOf g u) q, dataSourceId = Undefined\<rparr>
          = Output (Some (fst (retrieveAndGenerateResponse service q u g)))"
    using orFallback_cases by (auto simp: rag_effect Let_def split: kbReply.splits)
  have C: "fst (generateWithBedrock service' q u g) \<noteq> []"
    by (simp add: gen_effect Let_def orFallback_nonempty split: rtReply.splits)
  have D: "fst (generateWithBedrock service' q u g) = ''Error in AI generation''
      \<or> fst (generateWithBedrock service' q u g) = ''No response generated.''
      \<or> service' \<lparr>inputText = promptOf (bufferOf g u) q, dataSourceId = Undefined\<rparr>
          = Outputs (Some (fst (generateWithBedrock service' q u g)))"
    using orFallback_cases by (auto simp: gen_effect Let_def split: rtReply.splits)
  have E: "fst (post_api_retrieve_and_generate service u q g)
         = Reply 500 (ErrorText ''Error retrieving from Knowledge Base'')
       \<and> (readKey (userSessions g) u = Inherited
          \<or> service \<lparr>inputText = promptOf (bufferOf g u) q, dataSourceId = Undefined\<rparr> = Rejected)
      \<or> (\<exists>t. service \<lparr>inputText = promptOf (bufferOf g u) q, dataSourceId = Undefined\<rparr> = Output t
            \<and> fst (post_api_retrieve_and_generate service u q g)
                = Reply 200 (ResponseText (orFallback t)))"
    by (auto simp: route_effect Let_def split: kbReply.splits)
  from A B C D E show ?thesis by blast
qed

text \<open>The claim as it stands fails on the route: a rejected call is answered with
  status 500.\<close>

theorem route_surfaces_failure_counterexample:
  "fst (post_api_retrieve_and_generate (\<lambda>c. Rejected) ''u1'' ''hello'' noSessions)
     = Reply 500 (ErrorText ''Error retrieving from Knowledge Base'')
   \<and> status (fst (post_api_retrieve_and_generate (\<lambda>c. Rejected) ''u1'' ''hello'' noSessions)) = 500"
  by (simp add: post_api_retrieve_and_generate_def readKey_def noSessions_def inheritedKeys_def Let_def)

section \<open>Instant lookup with an unknown source\<close>

text \<open>
  Claim C3, amended. For a request with a query and a data source that is neither of
  the two named sources nor a key every object inherits, the lookup in the mapping gives
  \<^verbatim>\<open>undefined\<close>, no command is sent, and the caller gets status 200 with the sentinel
  text as the response, not a 400.
\<close>

theorem unknown_source_answered_200:
  assumes "query \<noteq> []" and "dataSource \<noteq> []"
    and "dataSource \<noteq> ''amp-data-pipgpt''" and "dataSource \<noteq> ''amp-test-data-2''"
    and "dataSource \<notin> set inheritedKeys"
  shows "dataSources penv dataSource = Undefined
       \<and> fetchInstantResponse penv service query dataSource cmds = (''Error retrieving response.'', cmds)
       \<and> post_api_instant_lookup penv service query dataSource cmds
           = (Reply 200 (ResponseText ''Error retrieving response.''), cmds)"
  using assms
  by (simp add: post_api_instant_lookup_def fetchInstantResponse_def dataSources_def Let_def)

theorem unknown_source_answered_200_witness:
  "post_api_instant_lookup demoEnv (\<lambda>c. Output (Some ''An answer'')) ''What is AMP?'' ''dsa-books'' []
     = (Reply 200 (ResponseText ''Error retrieving response.''), [])"
proof -
  have h: "''What is AMP?'' \<noteq> []" "''dsa-books'' \<noteq> []" "''dsa-books'' \<noteq> ''amp-data-pipgpt''"
    "''dsa-books'' \<noteq> ''amp-test-data-2''" "''dsa-books'' \<notin> set inheritedKeys"
    by (simp_all add: inheritedKeys_def)
  from unknown_source_answered_200 [OF h] show ?thesis by simp
qed

text \<open>The claim as it stands fails: the unknown source of the spec's scenario is
  answered with status 200.\<close>

theorem unknown_source_counterexample:
  "fst (post_api_instant_lookup demoEnv (\<lambda>c. Output (Some ''An answer'')) ''What is AMP?''
          ''unknown-source'' [])
     = Reply 200 (ResponseText ''Error retrieving response.'')
   \<and> status (fst (post_api_instant_lookup demoEnv (\<lambda>c. Output (Some ''An answer'')) ''What is AMP?''
          ''unknown-source'' [])) \<noteq> 400"
  by (simp add: post_api_instant_lookup_def fetchInstantResponse_def dataSources_def
                inheritedKeys_def Let_def)

section \<open>Deleting a document\<close>

lemma tokensDrawn_fresh:
  "tokensDrawn w \<Longrightarrow> uuids w \<notin> clientToken ` set (ingestions w)"
  by (auto simp: tokensDrawn_def list_all_iff)

lemma trigger_effect:
  "triggerBedrockReIngestion penv fail w =
    (if fail = Some 3 \<or> bucket w = [] then w
     else w\<lparr>uuids := Suc (uuids w),
            ingestions := ingestions w @
              [\<lparr>knowledgeBaseId = KNOWLEDGE_BASE_ID, ingestDataSourceId = penv ''DATA_SOURCE_ID'',
                clientToken = uuids w, description = ''Re-ingestion after file deletion''\<rparr>]\<rparr>)"
  by (simp add: triggerBedrockReIngestion_def uuidv4_def Let_def)

text \<open>
  Claim C5. Let the document be in the registry, let no call before the sending of the
  ingestion command reject (the sending itself may), and let every token sent so far
  have been drawn from the generator. Then the delete answers 200, the registry row is
  gone and the object's key is gone from the bucket. If the bucket is then empty, no
  ingestion command was sent and no token drawn. Otherwise exactly one command was
  sent, for the fixed knowledge base, with the token just drawn, which is on no earlier
  command.
\<close>

theorem delete_document_reingestion:
  assumes "Document w ident = Some doc"
    and "fail = None \<or> fail = Some 4"
    and "tokensDrawn w"
  shows "status (fst (delete_api_documents_id penv fail ident w)) = 200
       \<and> Document (snd (delete_api_documents_id penv fail ident w)) ident = None
       \<and> bucket (snd (delete_api_documents_id penv fail ident w))
           = removeAll (fileKeyOf (fileUrl doc)) (bucket w)
       \<and> (if bucket (snd (delete_api_documents_id penv fail ident w)) = []
          then ingestions (snd (delete_api_documents_id penv fail ident w)) = ingestions w
             \<and> uuids (snd (delete_api_documents_id penv fail ident w)) = uuids w
          else (\<exists>input. ingestions (snd (delete_api_documents_id penv fail ident w))
                           = ingestions w @ [input]
                  \<and> clientToken input = uuids w
                  \<and> clientToken input \<notin> clientToken ` set (ingestions w)
                  \<and> knowledgeBaseId input = KNOWLEDGE_BASE_ID)
             \<and> uuids (snd (delete_api_documents_id penv fail ident w)) = Suc (uuids w))
       \<and> tokensDrawn (snd (delete_api_documents_id penv fail ident w))"
proof -
  let ?w2 = "w\<lparr>bucket := removeAll (fileKeyOf (fileUrl doc)) (bucket w),
               Document := (Document w)(ident := None)\<rparr>"
  have run: "delete_api_documents_id penv fail ident w =
               (Reply 200 (Message ''Document deleted and Bedrock Knowledge Base updated!''),
                triggerBedrockReIngestion penv fail ?w2)"
    using assms(1,2) by (auto simp: delete_api_documents_id_def Let_def)
  have f3: "fail \<noteq> Some 3" using assms(2) by auto
  have fresh: "uuids w \<notin> clientToken ` set (ingestions w)"
    by (rule tokensDrawn_fresh [OF assms(3)])
  have drawn: "tokensDrawn (triggerBedrockReIngestion penv fail ?w2)"
    using assms(3) by (auto simp: trigger_effect tokensDrawn_def list_all_iff)
  show ?thesis
    using f3 fresh drawn by (simp add: run trigger_effect)
qed

theorem delete_document_reingestion_witness:
  "status (fst (delete_api_documents_id demoEnv (Some 4) ''d1'' demoWorld)) = 200
   \<and> bucket (snd (delete_api_documents_id demoEnv (Some 4) ''d1'' demoWorld)) = [''k2-b.pdf'']
   \<and> map clientToken (ingestions (snd (delete_api_documents_id demoEnv (Some 4) ''d1'' demoWorld)))
       = [0, 1, 2]"
proof -
  have h1: "Document demoWorld ''d1'' = Some \<lparr>docUserId = ''u1'', fileName = ''a.pdf'',
                                fileUrl = ''https://bucket.s3.eu.amazonaws.com/k1-a.pdf'',
                                contentType = ''application/pdf'', uploadedAt = 1\<rparr>"
    by (simp add: demoWorld_def)
  have h2: "Some 4 = None \<or> Some 4 = Some (4::nat)" by simp
  have h3: "tokensDrawn demoWorld"
    by (simp add: tokensDrawn_def demoWorld_def)
  have k: "fileKeyOf ''https://bucket.s3.eu.amazonaws.com/k1-a.pdf'' = ''k1-a.pdf''"
    by (simp add: fileKeyOf_def)
  have b: "bucket demoWorld = [''k1-a.pdf'', ''k2-b.pdf'']"
    and i: "map clientToken (ingestions demoWorld) = [0, 1]"
    and n: "uuids demoWorld = 2"
    by (simp_all add: demoWorld_def)
  from delete_document_reingestion [OF h1 h2 h3, of demoEnv] k b i n
  show ?thesis by auto
qed

end
